theory Spec2Isabelle
  imports Main
begin

section \<open>The profile page of outmentor (Profile.tsx)\<close>

text \<open>
  The component shows one profile of the mentoring platform and offers the follow and
  the connect action. It keeps React state (\<open>profile\<close>, \<open>isFollowing\<close>,
  \<open>followerCount\<close>, \<open>followers\<close>, \<open>showFollowers\<close>, \<open>loading\<close>) and talks to
  three tables of a relational backend (\<open>profiles\<close>, \<open>followers\<close>, \<open>connections\<close>)
  through the \<open>supabase\<close> client. Each handler is embedded as a function from the
  component (its state, its props, the backend and the calls it has made so far) to the
  component after the handler has run to completion.
\<close>

subsection \<open>Data model\<close>

datatype user_type = Mentor | Team

datatype team_type = FTC | FLL

record mentor_details_rec =
  mentor_ftc :: bool
  mentor_fll :: bool
  knowledge_areas :: "string list"

record team_details_rec =
  team_number :: string
  team_type :: team_type
  interest_areas :: "string list"

text \<open>A row of the table \<open>profiles\<close>: the fields of the interface \<open>Profile\<close> without the
  two joined detail records. The field \<open>id\<close> is named \<open>id_profile\<close>.\<close>

record profiles_row =
  id_profile :: string
  user_type :: user_type
  full_name :: string
  email :: string
  state :: string
  city :: string
  bio :: string
  avatar_url :: "string option"
  cover_image_url :: "string option"
  linkedin_url :: "string option"
  is_public :: bool
  created_at :: string

text \<open>The interface \<open>Profile\<close>: a row with the optional detail records.\<close>

record Profile = profiles_row +
  mentor_details :: "mentor_details_rec option"
  team_details :: "team_details_rec option"

text \<open>What the follower query selects of the follower's profile:
  \<open>id, full_name, avatar_url, user_type\<close>. The state \<open>followers\<close> is declared as
  \<open>Profile[]\<close> and holds these objects.\<close>

record follower_summary =
  summary_id :: string
  summary_full_name :: string
  summary_avatar_url :: "string option"
  summary_user_type :: user_type

text \<open>A row of \<open>followers\<close> (the generated column \<open>id\<close> is read only for its
  presence and is left out) and a row of \<open>connections\<close>.\<close>

record followers_row =
  follower_id :: string
  following_id :: string

record connections_row =
  mentor_id :: string
  team_id :: string
  status :: string

subsection \<open>The backend\<close>

text \<open>Modelled from the spec: the backend behind the \<open>supabase\<close> client
  (\<open>../lib/supabase\<close> and the service itself are not part of the source file). Section 6 of
  the specification gives its contract: fetch a profile with its details joined, fetch
  the followers of a target, fetch one follow edge, insert and delete a follow edge, fetch
  and insert a connection. The store is the content of the tables, each a list of rows
  (a list, since the store may hold duplicate rows); every request is answered from the
  store and every mutation that is sent is applied to it. The queries are written as the
  source builds them, from \<open>eq\<close> filters, \<open>maybeSingle\<close> and embedded selects. A query
  of the client is a builder: its request is sent when the builder is awaited or chained
  with \<open>then\<close>, and a builder that is only built sends nothing.\<close>

record store =
  profiles :: "profiles_row list"
  mentor_details_table :: "(string \<times> mentor_details_rec) list"
  team_details_table :: "(string \<times> team_details_rec) list"
  followers_table :: "followers_row list"
  connections :: "connections_row list"

text \<open>\<open>.eq(column, value)\<close> with a value that may be \<open>undefined\<close>: no row has an
  undefined key, so nothing matches then.\<close>

definition eq :: "('r \<Rightarrow> string) \<Rightarrow> string option \<Rightarrow> 'r \<Rightarrow> bool" where
  "eq column v row = (v = Some (column row))"

text \<open>\<open>.maybeSingle()\<close>: the \<open>data\<close> of the response is the row when exactly one row
  matches, and \<open>null\<close> when none does; more than one row is an error of the client, whose
  \<open>data\<close> is \<open>null\<close> as well.\<close>

definition maybeSingle :: "'r list \<Rightarrow> 'r option" where
  "maybeSingle rows = (case rows of [r] \<Rightarrow> Some r | _ \<Rightarrow> None)"

text \<open>The embedded selects \<open>mentor_details(*)\<close> and \<open>team_details(*)\<close> of the profile
  query.\<close>

definition join_details :: "store \<Rightarrow> profiles_row \<Rightarrow> Profile" where
  "join_details db r =
     profiles_row.extend r
       (Profile.fields (map_of (mentor_details_table db) (id_profile r))
                       (map_of (team_details_table db) (id_profile r)))"

definition select_profile :: "store \<Rightarrow> string option \<Rightarrow> Profile option" where
  "select_profile db target =
     maybeSingle (map (join_details db) (filter (eq id_profile target) (profiles db)))"

text \<open>The embedded select \<open>profiles:follower_id(id, full_name, avatar_url, user_type)\<close>:
  the profile of the follower, \<open>null\<close> when the store has no such profile.\<close>

definition summary_of :: "profiles_row \<Rightarrow> follower_summary" where
  "summary_of r =
     \<lparr>summary_id = id_profile r, summary_full_name = full_name r,
      summary_avatar_url = avatar_url r, summary_user_type = user_type r\<rparr>"

definition join_follower :: "store \<Rightarrow> followers_row \<Rightarrow> string \<times> follower_summary option" where
  "join_follower db f =
     (follower_id f,
      map_option summary_of (find (\<lambda>r. id_profile r = follower_id f) (profiles db)))"

definition select_followers ::
  "store \<Rightarrow> string option \<Rightarrow> (string \<times> follower_summary option) list" where
  "select_followers db target =
     map (join_follower db) (filter (eq following_id target) (followers_table db))"

definition select_follow_edge :: "store \<Rightarrow> string \<Rightarrow> string option \<Rightarrow> followers_row option" where
  "select_follow_edge db follower target =
     maybeSingle (filter (\<lambda>f. eq follower_id (Some follower) f \<and> eq following_id target f)
                    (followers_table db))"

definition delete_follow_edge :: "store \<Rightarrow> string \<Rightarrow> string \<Rightarrow> store" where
  "delete_follow_edge db follower following =
     db\<lparr>followers_table :=
          filter (\<lambda>f. \<not> (eq follower_id (Some follower) f \<and> eq following_id (Some following) f))
            (followers_table db)\<rparr>"

definition insert_follow_edge :: "store \<Rightarrow> string \<Rightarrow> string \<Rightarrow> store" where
  "insert_follow_edge db follower following =
     db\<lparr>followers_table :=
          followers_table db @ [\<lparr>follower_id = follower, following_id = following\<rparr>]\<rparr>"

datatype column = mentor_id_column | team_id_column

fun column_of :: "column \<Rightarrow> connections_row \<Rightarrow> string" where
  "column_of mentor_id_column = mentor_id"
| "column_of team_id_column = team_id"

definition select_connection ::
  "store \<Rightarrow> column \<Rightarrow> string \<Rightarrow> column \<Rightarrow> string \<Rightarrow> connections_row option" where
  "select_connection db c1 v1 c2 v2 =
     maybeSingle (filter (\<lambda>c. eq (column_of c1) (Some v1) c \<and> eq (column_of c2) (Some v2) c)
                    (connections db))"

subsection \<open>The component\<close>

text \<open>The requests of the component. Those that are sent are collected in \<open>requests\<close>,
  in the order of sending; those that are built and neither awaited nor chained are
  collected in \<open>unsent\<close>.\<close>

datatype request =
    SelectProfile "string option"
  | SelectFollowers "string option"
  | SelectFollowEdge string "string option"
  | DeleteFollowEdge string string
  | InsertFollowEdge string string
  | SelectConnection column string column string
  | InsertConnection connections_row

text \<open>The props (\<open>profileId\<close>; the calls of \<open>onNavigate\<close> are collected in
  \<open>navigated\<close>), the profile of the viewer from \<open>useAuth\<close>, the React state, the backend,
  the requests sent and the requests built without being sent.\<close>

record component =
  profileId :: "string option"
  currentProfile :: "profiles_row option"
  profile :: "Profile option"
  isFollowing :: bool
  followerCount :: nat
  followers :: "follower_summary list"
  showFollowers :: bool
  loading :: bool
  supabase :: store
  requests :: "request list"
  unsent :: "request list"
  navigated :: "(string \<times> string option) list"

text \<open>The state of the first render: the initial values of the \<open>useState\<close> calls.\<close>

definition initial :: "string option \<Rightarrow> profiles_row option \<Rightarrow> store \<Rightarrow> component" where
  "initial pid cur db =
     \<lparr>profileId = pid, currentProfile = cur, profile = None, isFollowing = False,
      followerCount = 0, followers = [], showFollowers = False, loading = True,
      supabase = db, requests = [], unsent = [], navigated = []\<rparr>"

text \<open>\<open>profileId || currentProfile?.id\<close>: the empty string is falsy.\<close>

definition targetProfileId :: "component \<Rightarrow> string option" where
  "targetProfileId s =
     (case profileId s of
        Some p \<Rightarrow> if p \<noteq> [] then Some p else map_option id_profile (currentProfile s)
      | None \<Rightarrow> map_option id_profile (currentProfile s))"

text \<open>\<open>loadProfile\<close>, in two parts: the request, and what follows the \<open>await\<close> with the
  \<open>data\<close> of the response (\<open>setProfile(data); setLoading(false)\<close>). A request that
  fails resolves too, with \<open>data\<close> \<open>null\<close> and an \<open>error\<close> the code does not read.\<close>

definition loadProfile_then :: "Profile option \<Rightarrow> component \<Rightarrow> component" where
  "loadProfile_then data s = s\<lparr>profile := data, loading := False\<rparr>"

definition loadProfile :: "component \<Rightarrow> component" where
  "loadProfile s =
     loadProfile_then (select_profile (supabase s) (targetProfileId s))
       (s\<lparr>requests := requests s @ [SelectProfile (targetProfileId s)]\<rparr>)"

definition loadFollowerInfo :: "component \<Rightarrow> component" where
  "loadFollowerInfo s =
     (case currentProfile s of
        None \<Rightarrow> s
      | Some cur \<Rightarrow>
          let followersList = select_followers (supabase s) (targetProfileId s);
              followerProfiles = List.map_filter snd followersList;
              s1 = s\<lparr>requests := requests s @ [SelectFollowers (targetProfileId s)],
                     followerCount := length followersList,
                     followers := followerProfiles\<rparr>
          in if Some (id_profile cur) \<noteq> targetProfileId s then
               let following = select_follow_edge (supabase s) (id_profile cur) (targetProfileId s)
               in s1\<lparr>requests := requests s1 @ [SelectFollowEdge (id_profile cur) (targetProfileId s)],
                      isFollowing := (following \<noteq> None)\<rparr>
             else s1)"

text \<open>The effect on \<open>targetProfileId\<close>: both loads, when the identifier is truthy.\<close>

definition useEffect :: "component \<Rightarrow> component" where
  "useEffect s =
     (case targetProfileId s of
        None \<Rightarrow> s
      | Some t \<Rightarrow> if t \<noteq> [] then loadFollowerInfo (loadProfile s) else s)"

definition toggleFollow :: "component \<Rightarrow> component" where
  "toggleFollow s =
     (case (currentProfile s, profile s) of
        (Some cur, Some p) \<Rightarrow>
          let s1 = (if isFollowing s then
                      s\<lparr>supabase := delete_follow_edge (supabase s) (id_profile cur) (id_profile p),
                        requests := requests s @ [DeleteFollowEdge (id_profile cur) (id_profile p)]\<rparr>
                    else
                      s\<lparr>supabase := insert_follow_edge (supabase s) (id_profile cur) (id_profile p),
                        requests := requests s @ [InsertFollowEdge (id_profile cur) (id_profile p)]\<rparr>)
          in loadFollowerInfo (s1\<lparr>isFollowing := \<not> isFollowing s\<rparr>)
      | _ \<Rightarrow> s)"

text \<open>Errors of the JavaScript run time: reading a property of \<open>null\<close>.\<close>

datatype js_error = TypeError

text \<open>The click handler of the button \<open>Mensagem\<close>, for the profile \<open>p\<close> of the render
  that shows the button. \<open>currentProfile!.id\<close> is evaluated while the query is built,
  before any request is sent. The existence query is chained with \<open>then\<close> and is sent.
  The insert in its continuation is built and neither awaited nor chained (the inserts
  and deletes of \<open>toggleFollow\<close> are awaited), so its request is never sent and the store
  stays as it is. \<open>onNavigate\<close> is called in the continuation of the existence query, in
  both of its branches.\<close>

definition connect_onClick :: "component \<Rightarrow> Profile \<Rightarrow> js_error + component" where
  "connect_onClick s p =
     (let isMentor = (map_option user_type (currentProfile s) = Some Mentor);
          targetType = (if user_type p = Mentor then mentor_id_column else team_id_column);
          currentType = (if isMentor then mentor_id_column else team_id_column)
      in case currentProfile s of
           None \<Rightarrow> Inl TypeError
         | Some cur \<Rightarrow>
             let data = select_connection (supabase s) targetType (id_profile p)
                          currentType (id_profile cur);
                 s1 = s\<lparr>requests := requests s @
                          [SelectConnection targetType (id_profile p) currentType (id_profile cur)]\<rparr>;
                 row = \<lparr>mentor_id = (if isMentor then id_profile cur else id_profile p),
                        team_id = (if isMentor then id_profile p else id_profile cur),
                        status = ''accepted''\<rparr>;
                 s2 = (if data = None then
                         s1\<lparr>unsent := unsent s1 @ [InsertConnection row]\<rparr>
                       else s1)
             in Inr (s2\<lparr>navigated := navigated s2 @ [(''profile'', Some (id_profile p))]\<rparr>))"

subsection \<open>Rendering\<close>

datatype screen = Spinner | NotFound | ProfilePage

definition render :: "component \<Rightarrow> screen" where
  "render s =
     (if loading s then Spinner
      else case profile s of None \<Rightarrow> NotFound | Some p \<Rightarrow> ProfilePage)"

definition isOwnProfile :: "component \<Rightarrow> Profile \<Rightarrow> bool" where
  "isOwnProfile s p = (map_option id_profile (currentProfile s) = Some (id_profile p))"

datatype control = Voltar | Seguir | Mensagem | EditarPerfil

text \<open>The buttons of each screen, as the JSX shows them.\<close>

definition buttons :: "component \<Rightarrow> control list" where
  "buttons s =
     (if loading s then []
      else case profile s of
        None \<Rightarrow> [Voltar]
      | Some p \<Rightarrow>
          [Voltar] @
          (if \<not> isOwnProfile s p then
             [Seguir] @
             (if map_option user_type (currentProfile s) \<noteq> Some (user_type p)
              then [Mensagem] else [])
           else []) @
          (if isOwnProfile s p then [EditarPerfil] else []))"

text \<open>Clicking a button runs its handler; a button that is not on the screen cannot be
  clicked.\<close>

definition onClick :: "control \<Rightarrow> component \<Rightarrow> js_error + component" where
  "onClick c s =
     (if c \<notin> set (buttons s) then Inr s
      else case c of
        Voltar \<Rightarrow> Inr (s\<lparr>navigated := navigated s @ [(''dashboard'', None)]\<rparr>)
      | Seguir \<Rightarrow> Inr (toggleFollow s)
      | Mensagem \<Rightarrow> (case profile s of None \<Rightarrow> Inr s | Some p \<Rightarrow> connect_onClick s p)
      | EditarPerfil \<Rightarrow> Inr (s\<lparr>navigated := navigated s @ [(''edit-profile'', None)]\<rparr>))"

subsection \<open>The invariant of the connections\<close>

text \<open>At most one connection for each pair of a mentor and a team.\<close>

definition one_per_pair :: "store \<Rightarrow> bool" where
  "one_per_pair db = distinct (map (\<lambda>c. (mentor_id c, team_id c)) (connections db))"

subsection \<open>Example data\<close>

text \<open>A mentor, a team, and the page of the team as a viewer sees it once both loads
  have run, over these stores: nobody follows the team; the mentor follows it; the edge
  from the mentor to the team is stored twice; an edge whose follower has no profile row
  points to the team; the mentor and the team are connected; their connection is stored
  twice.\<close>

definition example_row :: "string \<Rightarrow> user_type \<Rightarrow> string \<Rightarrow> profiles_row" where
  "example_row i t n =
     \<lparr>id_profile = i, user_type = t, full_name = n, email = [], state = ''SP'',
      city = ''Campinas'', bio = [], avatar_url = None, cover_image_url = None,
      linkedin_url = None, is_public = True, created_at = ''2024-03-01''\<rparr>"

definition ana :: profiles_row where
  "ana = example_row ''m1'' Mentor ''Ana''"

definition robots :: profiles_row where
  "robots = example_row ''t1'' Team ''Robots''"

definition example_store :: store where
  "example_store =
     \<lparr>profiles = [ana, robots],
      mentor_details_table =
        [(''m1'', \<lparr>mentor_ftc = True, mentor_fll = False, knowledge_areas = [''CAD'']\<rparr>)],
      team_details_table =
        [(''t1'', \<lparr>team_number = ''7'', team_type = FTC, interest_areas = []\<rparr>)],
      followers_table = [],
      connections = []\<rparr>"

definition followed_store :: store where
  "followed_store =
     example_store\<lparr>followers_table := [\<lparr>follower_id = ''m1'', following_id = ''t1''\<rparr>]\<rparr>"

definition twice_followed_store :: store where
  "twice_followed_store =
     example_store\<lparr>followers_table :=
       [\<lparr>follower_id = ''m1'', following_id = ''t1''\<rparr>,
        \<lparr>follower_id = ''m1'', following_id = ''t1''\<rparr>]\<rparr>"

definition ghost_store :: store where
  "ghost_store =
     example_store\<lparr>followers_table := [\<lparr>follower_id = ''x9'', following_id = ''t1''\<rparr>]\<rparr>"

definition connected_store :: store where
  "connected_store =
     example_store\<lparr>connections :=
       [\<lparr>mentor_id = ''m1'', team_id = ''t1'', status = ''accepted''\<rparr>]\<rparr>"

definition twice_connected_store :: store where
  "twice_connected_store =
     example_store\<lparr>connections :=
       [\<lparr>mentor_id = ''m1'', team_id = ''t1'', status = ''accepted''\<rparr>,
        \<lparr>mentor_id = ''m1'', team_id = ''t1'', status = ''accepted''\<rparr>]\<rparr>"

definition robots_profile :: Profile where
  "robots_profile = join_details example_store robots"

definition page :: "profiles_row option \<Rightarrow> store \<Rightarrow> component" where
  "page viewer db = useEffect (initial (Some ''t1'') viewer db)"

section \<open>Auxiliary facts\<close>

lemmas example_defs =
  page_def useEffect_def initial_def example_store_def followed_store_def ghost_store_def
  twice_followed_store_def connected_store_def twice_connected_store_def ana_def robots_def
  robots_profile_def example_row_def

lemmas model_defs =
  targetProfileId_def loadProfile_def loadProfile_then_def loadFollowerInfo_def toggleFollow_def
  select_profile_def select_followers_def select_follow_edge_def select_connection_def
  insert_follow_edge_def delete_follow_edge_def maybeSingle_def eq_def
  join_details_def join_follower_def summary_of_def Let_def List.map_filter_simps
  profiles_row.extend_def Profile.fields_def

lemma maybeSingle_None_iff: "maybeSingle xs = None \<longleftrightarrow> length xs \<noteq> 1"
  by (auto simp: maybeSingle_def split: list.splits)

lemma length_filter_split:
  "length (filter Q xs) =
     length (filter Q (filter (\<lambda>x. \<not> P x) xs)) + length (filter (\<lambda>x. P x \<and> Q x) xs)"
  by (induction xs) auto

lemma length_map_filter_le: "length (List.map_filter f xs) \<le> length xs"
  by (induction xs) (auto simp: List.map_filter_simps split: option.splits)

lemma length_map_filter_eq:
  "length (List.map_filter f xs) = length xs \<longleftrightarrow> (\<forall>x \<in> set xs. f x \<noteq> None)"
proof (induction xs)
  case Nil
  then show ?case by (simp add: List.map_filter_simps)
next
  case (Cons a xs)
  have le: "length (List.map_filter f xs) \<le> length xs"
    by (rule length_map_filter_le)
  show ?case
  proof (cases "f a")
    case None
    with le show ?thesis by (auto simp: List.map_filter_simps)
  next
    case (Some b)
    with Cons show ?thesis by (auto simp: List.map_filter_simps)
  qed
qed

text \<open>For a viewer and a profile of different roles, the existence query of the connect
  handler selects the rows of the pair (mentor, team).\<close>

lemma connect_query_rows:
  assumes "user_type cur \<noteq> user_type p"
  shows "filter (\<lambda>c. eq (column_of (if user_type p = Mentor then mentor_id_column
                                      else team_id_column)) (Some (id_profile p)) c \<and>
                   eq (column_of (if user_type cur = Mentor then mentor_id_column
                                      else team_id_column)) (Some (id_profile cur)) c) cs =
         filter (\<lambda>c. (mentor_id c, team_id c) =
                   (if user_type cur = Mentor then (id_profile cur, id_profile p)
                    else (id_profile p, id_profile cur))) cs"
proof (cases "user_type cur")
  case Mentor
  with assms have "user_type p = Team" by (cases "user_type p") auto
  with Mentor show ?thesis by (auto simp: eq_def intro!: filter_cong)
next
  case Team
  with assms have "user_type p = Mentor" by (cases "user_type p") auto
  with Team show ?thesis by (auto simp: eq_def intro!: filter_cong)
qed

lemma targetProfileId_update:
  "targetProfileId (s\<lparr>supabase := db, requests := rq, isFollowing := b\<rparr>) = targetProfileId s"
  by (simp add: targetProfileId_def split: option.splits)


lemma followerCount_loadFollowerInfo:
  "currentProfile s = Some cur \<Longrightarrow>
   followerCount (loadFollowerInfo s) =
     length (filter (eq following_id (targetProfileId s)) (followers_table (supabase s)))"
  by (simp add: loadFollowerInfo_def Let_def select_followers_def)

lemma followers_loadFollowerInfo:
  "currentProfile s = Some cur \<Longrightarrow>
   followers (loadFollowerInfo s) =
     List.map_filter snd (select_followers (supabase s) (targetProfileId s))"
  by (simp add: loadFollowerInfo_def Let_def)


text \<open>What a page holds after its loads: the loaded profile is the profile of the
  target, and the count and the flag are what the store answers.\<close>

lemma loaded_profile_is_target:
  assumes "profile (loadProfile s) = Some p"
  shows "targetProfileId s = Some (id_profile p)"
proof -
  let ?rows = "filter (eq id_profile (targetProfileId s)) (profiles (supabase s))"
  from assms have "maybeSingle (map (join_details (supabase s)) ?rows) = Some p"
    by (simp add: loadProfile_def loadProfile_then_def select_profile_def)
  then obtain r where one: "?rows = [r]" and p: "p = join_details (supabase s) r"
    by (cases ?rows) (auto simp: maybeSingle_def split: list.splits)
  from one have "r \<in> set ?rows" by simp
  then have "targetProfileId s = Some (id_profile r)"
    by (simp add: eq_def)
  moreover have "id_profile p = id_profile r"
    by (simp add: p join_details_def profiles_row.extend_def)
  ultimately show ?thesis by simp
qed

lemma loadFollowerInfo_consistent:
  assumes "currentProfile s = Some cur" and "Some (id_profile cur) \<noteq> targetProfileId s"
  shows "followerCount (loadFollowerInfo s) =
           length (filter (eq following_id (targetProfileId s)) (followers_table (supabase s))) \<and>
         isFollowing (loadFollowerInfo s) =
           (select_follow_edge (supabase s) (id_profile cur) (targetProfileId s) \<noteq> None)"
  using assms by (simp add: loadFollowerInfo_def Let_def select_followers_def)





text \<open>The connect handler leaves the store as it is.\<close>

lemma connect_keeps_store:
  "connect_onClick s p = Inr s' \<Longrightarrow> supabase s' = supabase s"
  by (auto simp: connect_onClick_def Let_def split: option.splits if_splits)

section \<open>The follow toggle\<close>




text \<open>C10: without an authenticated viewer, or without a loaded profile,
  \<open>toggleFollow\<close> does nothing at all: the backend (no insert, no delete), the requests
  sent and the whole local state (flag, count, list) stay as they are.\<close>

theorem toggleFollow_noop:
  "currentProfile s = None \<or> profile s = None \<Longrightarrow> toggleFollow s = s"
  by (auto simp: toggleFollow_def split: option.splits)

text \<open>The page of the team seen without a viewer, and the first render of Ana's view
  before any profile is loaded.\<close>

theorem toggleFollow_noop_witness:
  "currentProfile (page None followed_store) = None \<and>
   toggleFollow (page None followed_store) = page None followed_store \<and>
   profile (initial (Some ''t1'') (Some ana) followed_store) = None \<and>
   toggleFollow (initial (Some ''t1'') (Some ana) followed_store) =
     initial (Some ''t1'') (Some ana) followed_store"
proof -
  have a: "currentProfile (page None followed_store) = None \<or>
           profile (page None followed_store) = None"
    by (simp add: example_defs model_defs)
  have b: "currentProfile (initial (Some ''t1'') (Some ana) followed_store) = None \<or>
           profile (initial (Some ''t1'') (Some ana) followed_store) = None"
    by (simp add: initial_def)
  show ?thesis
    using toggleFollow_noop [OF a] toggleFollow_noop [OF b]
    by (simp add: example_defs model_defs)
qed

text \<open>C8: let the page show a loaded profile that is the target, the local follower
  count be the number of edges the store holds for the target, and the local flag be what
  the edge query answers on the store (nothing but the toggle changes the store). Then,
  once the reload of \<open>toggleFollow\<close> is done, the follower count is the count before
  plus one for a follow and minus one for an unfollow.\<close>

theorem toggleFollow_count_delta:
  assumes cur: "currentProfile s = Some cur"
    and p: "profile s = Some p"
    and tgt: "targetProfileId s = Some (id_profile p)"
    and count: "followerCount s =
        length (filter (eq following_id (targetProfileId s)) (followers_table (supabase s)))"
    and flag: "isFollowing s =
        (select_follow_edge (supabase s) (id_profile cur) (targetProfileId s) \<noteq> None)"
  shows "int (followerCount (toggleFollow s)) =
         int (followerCount s) + (if isFollowing s then - 1 else 1)"
proof -
  let ?edge = "\<lambda>f. eq follower_id (Some (id_profile cur)) f \<and>
                   eq following_id (Some (id_profile p)) f"
  let ?to = "eq following_id (Some (id_profile p))"
  let ?tbl = "followers_table (supabase s)"
  have tgt': "targetProfileId (s\<lparr>supabase := db, requests := rq, isFollowing := b\<rparr>) =
              Some (id_profile p)" for db rq b
    by (simp only: targetProfileId_update tgt)
  show ?thesis
  proof (cases "isFollowing s")
    case True
    with flag tgt have "length (filter ?edge ?tbl) = 1"
      by (simp add: select_follow_edge_def maybeSingle_None_iff)
    moreover have "filter (\<lambda>f. ?edge f \<and> ?to f) ?tbl = filter ?edge ?tbl"
      by (rule filter_cong) auto
    ultimately have "length (filter ?to ?tbl) =
        length (filter ?to (filter (\<lambda>f. \<not> ?edge f) ?tbl)) + 1"
      using length_filter_split [of ?to ?tbl ?edge] by simp
    moreover have "followerCount (toggleFollow s) =
        length (filter ?to (filter (\<lambda>f. \<not> ?edge f) ?tbl))"
      using cur p True
      by (simp add: toggleFollow_def followerCount_loadFollowerInfo tgt' delete_follow_edge_def)
    ultimately show ?thesis
      using True count tgt by simp
  next
    case False
    have "followerCount (toggleFollow s) =
        length (filter ?to (?tbl @ [\<lparr>follower_id = id_profile cur, following_id = id_profile p\<rparr>]))"
      using cur p False
      by (simp add: toggleFollow_def followerCount_loadFollowerInfo tgt' insert_follow_edge_def)
    then show ?thesis
      using False count tgt by (simp add: eq_def)
  qed
qed

text \<open>Ana follows the team (the count goes from 0 to 1) and, on the store where she
  follows it already, unfollows it (from 1 to 0).\<close>

theorem toggleFollow_count_delta_witness:
  "followerCount (page (Some ana) example_store) = 0 \<and>
   \<not> isFollowing (page (Some ana) example_store) \<and>
   followerCount (toggleFollow (page (Some ana) example_store)) = 1 \<and>
   followerCount (page (Some ana) followed_store) = 1 \<and>
   isFollowing (page (Some ana) followed_store) \<and>
   followerCount (toggleFollow (page (Some ana) followed_store)) = 0"
proof -
  let ?s0 = "page (Some ana) example_store" and ?s1 = "page (Some ana) followed_store"
  have v0: "currentProfile ?s0 = Some ana"
    and p0: "profile ?s0 = Some robots_profile"
    and t0: "targetProfileId ?s0 = Some (id_profile robots_profile)"
    and c0: "followerCount ?s0 =
        length (filter (eq following_id (targetProfileId ?s0)) (followers_table (supabase ?s0)))"
    and f0: "isFollowing ?s0 =
        (select_follow_edge (supabase ?s0) (id_profile ana) (targetProfileId ?s0) \<noteq> None)"
    by (simp_all add: example_defs model_defs)
  have v1: "currentProfile ?s1 = Some ana"
    and p1: "profile ?s1 = Some robots_profile"
    and t1: "targetProfileId ?s1 = Some (id_profile robots_profile)"
    and c1: "followerCount ?s1 =
        length (filter (eq following_id (targetProfileId ?s1)) (followers_table (supabase ?s1)))"
    and f1: "isFollowing ?s1 =
        (select_follow_edge (supabase ?s1) (id_profile ana) (targetProfileId ?s1) \<noteq> None)"
    by (simp_all add: example_defs model_defs)
  have n0: "followerCount ?s0 = 0 \<and> \<not> isFollowing ?s0"
    and n1: "followerCount ?s1 = 1 \<and> isFollowing ?s1"
    by (simp_all add: example_defs model_defs)
  show ?thesis
    using toggleFollow_count_delta [OF v0 p0 t0 c0 f0] toggleFollow_count_delta [OF v1 p1 t1 c1 f1]
      n0 n1
    by simp
qed

section \<open>The social graph reader\<close>

text \<open>C4, as the code has it: after a load of \<open>loadFollowerInfo\<close> for an authenticated
  viewer, the follower count is the number of follow edges fetched for the target, as
  they are in the store, duplicates included. The follower list comes from the same
  fetch: it holds the joined profiles of the fetched edges, without the edges whose
  joined profile is \<open>null\<close> (\<open>filter(Boolean)\<close>). So the list is never longer than
  the count, and it is as long as the count exactly when every fetched edge has its
  follower's profile.\<close>

theorem follower_count_and_list:
  assumes "currentProfile s = Some cur"
  shows "followerCount (loadFollowerInfo s) =
           length (filter (eq following_id (targetProfileId s)) (followers_table (supabase s))) \<and>
         followerCount (loadFollowerInfo s) =
           length (select_followers (supabase s) (targetProfileId s)) \<and>
         followers (loadFollowerInfo s) =
           List.map_filter snd (select_followers (supabase s) (targetProfileId s)) \<and>
         length (followers (loadFollowerInfo s)) \<le> followerCount (loadFollowerInfo s) \<and>
         (length (followers (loadFollowerInfo s)) = followerCount (loadFollowerInfo s) \<longleftrightarrow>
            (\<forall>f \<in> set (select_followers (supabase s) (targetProfileId s)). snd f \<noteq> None))"
proof -
  let ?fetched = "select_followers (supabase s) (targetProfileId s)"
  have count: "followerCount (loadFollowerInfo s) = length ?fetched"
    using assms by (simp add: loadFollowerInfo_def Let_def)
  have raw: "length ?fetched =
      length (filter (eq following_id (targetProfileId s)) (followers_table (supabase s)))"
    by (simp add: select_followers_def)
  have list: "followers (loadFollowerInfo s) = List.map_filter snd ?fetched"
    using assms by (rule followers_loadFollowerInfo)
  show ?thesis
    unfolding list count
    using raw length_map_filter_le [of snd ?fetched] length_map_filter_eq [of snd ?fetched]
    by simp
qed

text \<open>Ana loads the followers of the team on the store where she follows it: one edge,
  one entry.\<close>

theorem follower_count_and_list_witness:
  "currentProfile (initial (Some ''t1'') (Some ana) followed_store) = Some ana \<and>
   followerCount (loadFollowerInfo (initial (Some ''t1'') (Some ana) followed_store)) = 1 \<and>
   followers (loadFollowerInfo (initial (Some ''t1'') (Some ana) followed_store)) =
     [summary_of ana] \<and>
   length (followers (loadFollowerInfo (initial (Some ''t1'') (Some ana) followed_store))) =
     followerCount (loadFollowerInfo (initial (Some ''t1'') (Some ana) followed_store))"
proof -
  have v: "currentProfile (initial (Some ''t1'') (Some ana) followed_store) = Some ana"
    by (simp add: initial_def)
  show ?thesis
    using v follower_count_and_list [OF v]
    by (simp add: example_defs model_defs)
qed

text \<open>The store holds one edge to the team whose follower \<open>x9\<close> has no profile row: the
  load counts one follower and lists none.\<close>

theorem follower_list_shorter_than_count:
  "currentProfile (initial (Some ''t1'') (Some ana) ghost_store) = Some ana \<and>
   select_followers ghost_store (Some ''t1'') = [(''x9'', None)] \<and>
   followerCount (loadFollowerInfo (initial (Some ''t1'') (Some ana) ghost_store)) = 1 \<and>
   followers (loadFollowerInfo (initial (Some ''t1'') (Some ana) ghost_store)) = [] \<and>
   followerCount (loadFollowerInfo (initial (Some ''t1'') (Some ana) ghost_store)) \<noteq>
     length (followers (loadFollowerInfo (initial (Some ''t1'') (Some ana) ghost_store)))"
  by (simp add: example_defs model_defs)

text \<open>C5, as the code has it: \<open>loadFollowerInfo\<close> starts with
  \<open>if (!currentProfile) return\<close>. With an authenticated viewer it fetches all follow
  edges whose \<open>following_id\<close> is the target, counts them, and projects each edge whose
  follower has a profile row to the summary of that profile (identifier, name, avatar,
  role). Without a viewer it sends no request and leaves the count and the list as they
  were.\<close>

theorem follower_projection:
  "(case currentProfile s of
      None \<Rightarrow> loadFollowerInfo s = s
    | Some cur \<Rightarrow>
        followerCount (loadFollowerInfo s) =
          length (filter (eq following_id (targetProfileId s)) (followers_table (supabase s))) \<and>
        followers (loadFollowerInfo s) =
          List.map_filter
            (\<lambda>f. map_option summary_of
                   (find (\<lambda>r. id_profile r = follower_id f) (profiles (supabase s))))
            (filter (eq following_id (targetProfileId s)) (followers_table (supabase s))) \<and>
        SelectFollowers (targetProfileId s) \<in> set (requests (loadFollowerInfo s)))"
proof -
  have proj: "List.map_filter snd (map (join_follower db) fs) =
              List.map_filter
                (\<lambda>f. map_option summary_of
                       (find (\<lambda>r. id_profile r = follower_id f) (profiles db))) fs"
    for db fs
    by (induction fs) (auto simp: List.map_filter_simps join_follower_def split: option.splits)
  show ?thesis
    by (auto simp: loadFollowerInfo_def Let_def select_followers_def proj split: option.splits)
qed

text \<open>With Ana as the viewer the list is her summary; without a viewer nothing is
  loaded.\<close>

theorem follower_projection_witness:
  "followerCount (loadFollowerInfo (initial (Some ''t1'') (Some ana) followed_store)) = 1 \<and>
   followers (loadFollowerInfo (initial (Some ''t1'') (Some ana) followed_store)) =
     [\<lparr>summary_id = ''m1'', summary_full_name = ''Ana'', summary_avatar_url = None,
       summary_user_type = Mentor\<rparr>] \<and>
   loadFollowerInfo (initial (Some ''t1'') None followed_store) =
     initial (Some ''t1'') None followed_store"
  using follower_projection [of "initial (Some ''t1'') (Some ana) followed_store"]
    follower_projection [of "initial (Some ''t1'') None followed_store"]
  by (simp add: example_defs model_defs)

text \<open>No viewer is authenticated and the store holds the edge from Ana to the team, with
  Ana's profile: the page of the team, after its loads, shows no follower and the count
  0, and no follower query was sent.\<close>

theorem anonymous_viewer_loads_no_followers:
  "currentProfile (page None followed_store) = None \<and>
   targetProfileId (page None followed_store) = Some ''t1'' \<and>
   select_followers followed_store (Some ''t1'') = [(''m1'', Some (summary_of ana))] \<and>
   followers (page None followed_store) = [] \<and>
   followerCount (page None followed_store) = 0 \<and>
   requests (page None followed_store) = [SelectProfile (Some ''t1'')]"
  by (simp add: example_defs model_defs)

section \<open>The profile loader\<close>

text \<open>C6: when exactly one stored profile has the target identifier, \<open>loadProfile\<close>
  yields that profile, with the detail records joined in the same query: the loaded
  \<open>mentor_details\<close> and \<open>team_details\<close> are the rows the store holds for the identifier
  (so the record of the profile's role is there whenever it is stored), and the loading
  flag, true at the first render, is false afterwards.\<close>

theorem loadProfile_found:
  assumes "targetProfileId s = Some t"
    and "filter (\<lambda>r. id_profile r = t) (profiles (supabase s)) = [r]"
  shows "profile (loadProfile s) = Some (join_details (supabase s) r) \<and>
         profiles_row.truncate (join_details (supabase s) r) = r \<and>
         id_profile (join_details (supabase s) r) = t \<and>
         mentor_details (join_details (supabase s) r) =
           map_of (mentor_details_table (supabase s)) t \<and>
         team_details (join_details (supabase s) r) =
           map_of (team_details_table (supabase s)) t \<and>
         loading (initial (profileId s) (currentProfile s) (supabase s)) \<and>
         \<not> loading (loadProfile s)"
proof -
  from assms(2) have "r \<in> set (filter (\<lambda>r. id_profile r = t) (profiles (supabase s)))"
    by simp
  then have idr: "id_profile r = t" by simp
  have e: "eq id_profile (Some t) = (\<lambda>r. id_profile r = t)"
    by (auto simp: eq_def fun_eq_iff)
  have "filter (eq id_profile (Some t)) (profiles (supabase s)) = [r]"
    unfolding e by (rule assms(2))
  then have "select_profile (supabase s) (targetProfileId s) = Some (join_details (supabase s) r)"
    by (simp add: select_profile_def assms(1) maybeSingle_def)
  then show ?thesis
    using idr
    by (simp add: loadProfile_def loadProfile_then_def join_details_def initial_def
        profiles_row.extend_def profiles_row.truncate_def Profile.fields_def)
qed

text \<open>Loading the team: the row of the team with its team details, and no mentor
  details.\<close>

theorem loadProfile_found_witness:
  "targetProfileId (initial (Some ''t1'') (Some ana) example_store) = Some ''t1'' \<and>
   filter (\<lambda>r. id_profile r = ''t1'') (profiles (supabase (initial (Some ''t1'') (Some ana) example_store))) =
     [robots] \<and>
   profile (loadProfile (initial (Some ''t1'') (Some ana) example_store)) = Some robots_profile \<and>
   user_type robots_profile = Team \<and>
   team_details robots_profile =
     Some \<lparr>team_number = ''7'', team_type = FTC, interest_areas = []\<rparr> \<and>
   mentor_details robots_profile = None \<and>
   loading (initial (Some ''t1'') (Some ana) example_store) \<and>
   \<not> loading (loadProfile (initial (Some ''t1'') (Some ana) example_store))"
proof -
  let ?s = "initial (Some ''t1'') (Some ana) example_store"
  have t: "targetProfileId ?s = Some ''t1''"
    by (simp add: example_defs model_defs)
  have r: "filter (\<lambda>r. id_profile r = ''t1'') (profiles (supabase ?s)) = [robots]"
    by (simp add: example_defs)
  show ?thesis
    using t r loadProfile_found [OF t r]
    by (simp add: example_defs model_defs)
qed

text \<open>C7: when no stored profile has the target identifier, \<open>loadProfile\<close> yields the
  state of a profile that was not found: \<open>profile\<close> is \<open>null\<close>, the loading flag is
  cleared, and the screen is the one of the missing profile, whose only button
  \<open>Voltar\<close> navigates to the dashboard. A fetch that fails answers with \<open>data\<close>
  \<open>null\<close> as well, and the continuation of \<open>loadProfile\<close> on that answer gives the same
  state. Neither path raises an error.\<close>

theorem loadProfile_not_found:
  "(filter (eq id_profile (targetProfileId s)) (profiles (supabase s)) = [] \<longrightarrow>
      profile (loadProfile s) = None \<and> \<not> loading (loadProfile s) \<and>
      render (loadProfile s) = NotFound \<and> buttons (loadProfile s) = [Voltar] \<and>
      onClick Voltar (loadProfile s) =
        Inr ((loadProfile s)\<lparr>navigated := navigated s @ [(''dashboard'', None)]\<rparr>)) \<and>
   profile (loadProfile_then None s) = None \<and> \<not> loading (loadProfile_then None s) \<and>
   render (loadProfile_then None s) = NotFound \<and> buttons (loadProfile_then None s) = [Voltar] \<and>
   onClick Voltar (loadProfile_then None s) =
     Inr ((loadProfile_then None s)\<lparr>navigated := navigated s @ [(''dashboard'', None)]\<rparr>)"
  by (simp add: loadProfile_def loadProfile_then_def select_profile_def maybeSingle_def
      render_def buttons_def onClick_def)

text \<open>No profile has the identifier \<open>zz\<close>.\<close>

theorem loadProfile_not_found_witness:
  "filter (eq id_profile (targetProfileId (initial (Some ''zz'') (Some ana) example_store)))
     (profiles (supabase (initial (Some ''zz'') (Some ana) example_store))) = [] \<and>
   profile (loadProfile (initial (Some ''zz'') (Some ana) example_store)) = None \<and>
   render (loadProfile (initial (Some ''zz'') (Some ana) example_store)) = NotFound \<and>
   buttons (loadProfile (initial (Some ''zz'') (Some ana) example_store)) = [Voltar] \<and>
   (\<exists>s'. onClick Voltar (loadProfile (initial (Some ''zz'') (Some ana) example_store)) = Inr s' \<and>
         navigated s' = [(''dashboard'', None)])"
proof -
  let ?s = "initial (Some ''zz'') (Some ana) example_store"
  have none: "filter (eq id_profile (targetProfileId ?s)) (profiles (supabase ?s)) = []"
    by (simp add: example_defs model_defs)
  have nav: "navigated ?s = []"
    by (simp add: initial_def)
  show ?thesis
    using none nav loadProfile_not_found [of ?s]
    by simp
qed

section \<open>The connection initiator\<close>

text \<open>C2 says that the connect action inserts a row whose \<open>mentor_id\<close> and \<open>team_id\<close>
  are the identifiers of the mentor and of the team among the viewer and the target, with
  the status \<open>accepted\<close>. The mentor Ana clicks \<open>Mensagem\<close> on the page of the team
  Robots, with no connection in the store: the handler sends the existence query, builds
  the insert of the row (m1, t1, accepted) without sending it, and navigates; the store
  has no connection afterwards.\<close>

theorem connect_insert_never_sent:
  "currentProfile (page (Some ana) example_store) = Some ana \<and>
   user_type ana \<noteq> user_type robots_profile \<and>
   connections (supabase (page (Some ana) example_store)) = [] \<and>
   connect_onClick (page (Some ana) example_store) robots_profile =
     Inr ((page (Some ana) example_store)
            \<lparr>requests := requests (page (Some ana) example_store) @
               [SelectConnection team_id_column ''t1'' mentor_id_column ''m1''],
             unsent :=
               [InsertConnection \<lparr>mentor_id = ''m1'', team_id = ''t1'', status = ''accepted''\<rparr>],
             navigated := [(''profile'', Some ''t1'')]\<rparr>) \<and>
   connections
     (supabase ((page (Some ana) example_store)
            \<lparr>requests := requests (page (Some ana) example_store) @
               [SelectConnection team_id_column ''t1'' mentor_id_column ''m1''],
             unsent :=
               [InsertConnection \<lparr>mentor_id = ''m1'', team_id = ''t1'', status = ''accepted''\<rparr>],
             navigated := [(''profile'', Some ''t1'')]\<rparr>)) = []"
  by (simp add: connect_onClick_def example_defs model_defs)

text \<open>C3: the handler runs to its end before anything else touches the store. With a
  viewer whose role differs from the target's, the click never fails, the viewer is
  navigated to the profile view of the target in every case, and the store is left as it
  is: no connection row is added, whether or not a connection of the two is there already,
  so a store with at most one connection for each pair stays one. The only request sent
  is the existence query; when exactly one connection of the viewer and the target (as
  mentor and team) is stored, not even an insert is built.\<close>

theorem connect_once_and_navigate:
  assumes "currentProfile s = Some cur"
    and "user_type cur \<noteq> user_type p"
  shows "\<exists>s'. connect_onClick s p = Inr s' \<and>
              navigated s' = navigated s @ [(''profile'', Some (id_profile p))] \<and>
              supabase s' = supabase s \<and>
              connections (supabase s') = connections (supabase s) \<and>
              one_per_pair (supabase s') = one_per_pair (supabase s) \<and>
              requests s' = requests s @
                [SelectConnection
                   (if user_type p = Mentor then mentor_id_column else team_id_column)
                   (id_profile p)
                   (if user_type cur = Mentor then mentor_id_column else team_id_column)
                   (id_profile cur)] \<and>
              (length (filter (\<lambda>c. (mentor_id c, team_id c) =
                          (if user_type cur = Mentor then (id_profile cur, id_profile p)
                           else (id_profile p, id_profile cur)))
                        (connections (supabase s))) = 1 \<longrightarrow>
               unsent s' = unsent s)"
proof -
  let ?key = "\<lambda>c. (mentor_id c, team_id c)"
  let ?tt = "if user_type p = Mentor then mentor_id_column else team_id_column"
  let ?ct = "if user_type cur = Mentor then mentor_id_column else team_id_column"
  define pair where "pair = (if user_type cur = Mentor then (id_profile cur, id_profile p)
                             else (id_profile p, id_profile cur))"
  define rows where "rows = filter (\<lambda>c. ?key c = pair) (connections (supabase s))"
  define row where "row = \<lparr>mentor_id = fst pair, team_id = snd pair, status = ''accepted''\<rparr>"
  have data: "select_connection (supabase s) ?tt (id_profile p) ?ct (id_profile cur) =
              maybeSingle rows"
    unfolding select_connection_def rows_def pair_def
    using connect_query_rows [OF assms(2)] by simp
  have row: "row = \<lparr>mentor_id = (if user_type cur = Mentor then id_profile cur else id_profile p),
                     team_id = (if user_type cur = Mentor then id_profile p else id_profile cur),
                     status = ''accepted''\<rparr>"
    by (simp add: row_def pair_def)
  define s1 where
    "s1 = s\<lparr>requests := requests s @ [SelectConnection ?tt (id_profile p) ?ct (id_profile cur)]\<rparr>"
  define s2 where
    "s2 = (if maybeSingle rows = None
           then s1\<lparr>unsent := unsent s1 @ [InsertConnection row]\<rparr>
           else s1)"
  define s' where "s' = s2\<lparr>navigated := navigated s2 @ [(''profile'', Some (id_profile p))]\<rparr>"
  have run: "connect_onClick s p = Inr s'"
    unfolding connect_onClick_def Let_def s'_def s2_def s1_def row
    using assms(1) data by simp
  have nav: "navigated s' = navigated s @ [(''profile'', Some (id_profile p))]"
    by (simp add: s'_def s2_def s1_def)
  have db: "supabase s' = supabase s"
    by (simp add: s'_def s2_def s1_def)
  have sent: "requests s' = requests s @ [SelectConnection ?tt (id_profile p) ?ct (id_profile cur)]"
    by (simp add: s'_def s2_def s1_def)
  have built: "unsent s' = unsent s" if "length rows = 1"
  proof -
    from that have "maybeSingle rows \<noteq> None"
      by (simp add: maybeSingle_None_iff)
    then show ?thesis
      by (simp add: s'_def s2_def s1_def)
  qed
  from run nav db sent built show ?thesis
    unfolding rows_def pair_def by auto
qed

text \<open>Ana and the team are connected once, connected twice, and not connected: each click
  leaves the connections as they are and navigates to the profile of the team.\<close>

theorem connect_once_and_navigate_witness:
  "currentProfile (page (Some ana) connected_store) = Some ana \<and>
   user_type ana \<noteq> user_type robots_profile \<and>
   length (filter (\<lambda>c. (mentor_id c, team_id c) = (''m1'', ''t1''))
             (connections (supabase (page (Some ana) connected_store)))) = 1 \<and>
   (\<exists>s'. connect_onClick (page (Some ana) connected_store) robots_profile = Inr s' \<and>
         connections (supabase s') =
           [\<lparr>mentor_id = ''m1'', team_id = ''t1'', status = ''accepted''\<rparr>] \<and>
         unsent s' = [] \<and>
         navigated s' = [(''profile'', Some ''t1'')]) \<and>
   currentProfile (page (Some ana) twice_connected_store) = Some ana \<and>
   (\<exists>s'. connect_onClick (page (Some ana) twice_connected_store) robots_profile = Inr s' \<and>
         connections (supabase s') =
           [\<lparr>mentor_id = ''m1'', team_id = ''t1'', status = ''accepted''\<rparr>,
            \<lparr>mentor_id = ''m1'', team_id = ''t1'', status = ''accepted''\<rparr>] \<and>
         navigated s' = [(''profile'', Some ''t1'')]) \<and>
   currentProfile (page (Some ana) example_store) = Some ana \<and>
   (\<exists>s'. connect_onClick (page (Some ana) example_store) robots_profile = Inr s' \<and>
         connections (supabase s') = [] \<and>
         navigated s' = [(''profile'', Some ''t1'')])"
proof -
  have v: "currentProfile (page (Some ana) connected_store) = Some ana"
    and v2: "currentProfile (page (Some ana) twice_connected_store) = Some ana"
    and v0: "currentProfile (page (Some ana) example_store) = Some ana"
    and d: "user_type ana \<noteq> user_type robots_profile"
    by (simp_all add: example_defs model_defs)
  have one: "length (filter (\<lambda>c. (mentor_id c, team_id c) = (''m1'', ''t1''))
             (connections (supabase (page (Some ana) connected_store)))) = 1"
    by (simp add: example_defs model_defs)
  have facts:
    "id_profile ana = ''m1''" "id_profile robots_profile = ''t1''" "user_type ana = Mentor"
    "connections (supabase (page (Some ana) connected_store)) =
       [\<lparr>mentor_id = ''m1'', team_id = ''t1'', status = ''accepted''\<rparr>]"
    "connections (supabase (page (Some ana) twice_connected_store)) =
       [\<lparr>mentor_id = ''m1'', team_id = ''t1'', status = ''accepted''\<rparr>,
        \<lparr>mentor_id = ''m1'', team_id = ''t1'', status = ''accepted''\<rparr>]"
    "connections (supabase (page (Some ana) example_store)) = []"
    "unsent (page (Some ana) connected_store) = []"
    "navigated (page (Some ana) connected_store) = []"
    "navigated (page (Some ana) twice_connected_store) = []"
    "navigated (page (Some ana) example_store) = []"
    by (simp_all add: example_defs model_defs)
  show ?thesis
    using v v2 v0 d one
      connect_once_and_navigate [OF v d] connect_once_and_navigate [OF v2 d]
      connect_once_and_navigate [OF v0 d]
    by (auto simp: facts)
qed

text \<open>The button \<open>Mensagem\<close> is on the screen of every loaded profile when no viewer is
  authenticated, and its handler then reads \<open>currentProfile!.id\<close> of \<open>null\<close>.\<close>

lemma Mensagem_without_viewer:
  assumes "\<not> loading s" and "profile s = Some p" and "currentProfile s = None"
  shows "Mensagem \<in> set (buttons s) \<and> onClick Mensagem s = Inl TypeError"
  using assms by (simp add: buttons_def isOwnProfile_def onClick_def connect_onClick_def)

lemma connect_with_viewer:
  "currentProfile s = Some cur \<Longrightarrow> \<exists>s'. connect_onClick s p = Inr s'"
  by (simp add: connect_onClick_def Let_def)

text \<open>C9 says that a viewer profile exists in every render that shows the button
  \<open>Mensagem\<close>, so that \<open>currentProfile!.id\<close> never reads an absent value. The page of the
  team seen without an authenticated viewer shows the profile with the button, and the
  click raises the type error.\<close>

theorem Mensagem_shown_to_anonymous_viewer:
  "currentProfile (page None example_store) = None \<and>
   render (page None example_store) = ProfilePage \<and>
   profile (page None example_store) = Some robots_profile \<and>
   Mensagem \<in> set (buttons (page None example_store)) \<and>
   onClick Mensagem (page None example_store) = Inl TypeError"
  by (simp add: example_defs model_defs render_def buttons_def isOwnProfile_def onClick_def
      connect_onClick_def)

end
